theory Spec2Isabelle
  imports Complex_Main
begin

section \<open>Python values, failures and containers\<close>

text \<open>
  The optimisation driver \<^verbatim>\<open>beso_main.py\<close> is a script: initialisation code
  followed by one \<^verbatim>\<open>while True\<close> loop. Its exceptions are values of the type
  \<open>error\<close>, and a computation that may raise has type \<open>error + 'a\<close>.
  Floating-point numbers are modelled as reals; division by zero raises, as it
  does for Python floats.
\<close>

datatype error =
    NameError
  | KeyError
  | IndexError
  | ZeroDivisionError
  | ValueError
  | TypeError
  | AssertionError
  | Exception_FI_max
  | Exception_missing_values

definition and_then :: "error + 'a \<Rightarrow> ('a \<Rightarrow> error + 'b) \<Rightarrow> error + 'b" where
  "and_then r f = (case r of Inl e \<Rightarrow> Inl e | Inr x \<Rightarrow> f x)"

text \<open>\<^verbatim>\<open>for x in xs: body\<close>, where the body may raise.\<close>

fun for_each :: "('a \<Rightarrow> 's \<Rightarrow> error + 's) \<Rightarrow> 'a list \<Rightarrow> 's \<Rightarrow> error + 's" where
  "for_each body [] s = Inr s"
| "for_each body (x # xs) s =
     (case body x s of Inl e \<Rightarrow> Inl e | Inr s' \<Rightarrow> for_each body xs s')"

text \<open>\<^verbatim>\<open>xs[k]\<close>: negative indices count from the end, out of range raises.\<close>

definition py_get :: "'a list \<Rightarrow> int \<Rightarrow> error + 'a" where
  "py_get xs k =
     (let n = int (length xs); j = (if k < 0 then n + k else k)
      in if 0 \<le> j \<and> j < n then Inr (xs ! nat j) else Inl IndexError)"

text \<open>\<^verbatim>\<open>d[k]\<close> on a dictionary.\<close>

definition py_key :: "('k \<rightharpoonup> 'v) \<Rightarrow> 'k \<Rightarrow> error + 'v" where
  "py_key d k = (case d k of None \<Rightarrow> Inl KeyError | Some v \<Rightarrow> Inr v)"

text \<open>\<^verbatim>\<open>d[k]\<close> on a dictionary given by the list of its items.\<close>

definition py_item :: "('k \<times> 'v) list \<Rightarrow> 'k \<Rightarrow> error + 'v" where
  "py_item d k = (case map_of d k of None \<Rightarrow> Inl KeyError | Some v \<Rightarrow> Inr v)"

definition py_div :: "real \<Rightarrow> real \<Rightarrow> error + real" where
  "py_div a b = (if b = 0 then Inl ZeroDivisionError else Inr (a / b))"

text \<open>\<^verbatim>\<open>max(xs)\<close> on a list: \<^verbatim>\<open>ValueError\<close> on the empty list.\<close>

definition py_max :: "real list \<Rightarrow> error + real" where
  "py_max xs = (case xs of [] \<Rightarrow> Inl ValueError | y # ys \<Rightarrow> Inr (fold max ys y))"


text \<open>\<^verbatim>\<open>s[-4:]\<close>: the last four characters, or all of a shorter string.\<close>

definition last4 :: "string \<Rightarrow> string" where
  "last4 s = drop (length s - 4) s"

text \<open>
  \<^verbatim>\<open>s.split()\<close>: the maximal runs of non-whitespace characters. A character
  is a code point below 256; among them \<^verbatim>\<open>str.isspace\<close> holds of the twelve
  listed ones.
\<close>

definition is_space :: "char \<Rightarrow> bool" where
  "is_space c = (c \<in> set [CHR 0x20, CHR 0x09, CHR 0x0A, CHR 0x0B, CHR 0x0C, CHR 0x0D,
                            CHR 0x1C, CHR 0x1D, CHR 0x1E, CHR 0x1F, CHR 0x85, CHR 0xA0])"

fun split_words :: "string \<Rightarrow> string \<Rightarrow> string list" where
  "split_words [] w = (if w = [] then [] else [w])"
| "split_words (c # cs) w =
     (if is_space c then (if w = [] then split_words cs [] else w # split_words cs [])
      else split_words cs (w @ [c]))"

definition py_split :: "string \<Rightarrow> string list" where
  "py_split s = split_words s []"

section \<open>Run configuration and mesh data\<close>

type_synonym elem = nat
type_synonym states = "elem \<rightharpoonup> int"

datatype limit = Auto | Limit int

datatype continue_from = Int_state int | Str_source string

datatype f_range = Range real | Auto_range

text \<open>
  One entry \<^verbatim>\<open>ft\<close> of \<^verbatim>\<open>filter_list\<close>: \<open>f_name\<close> is \<^verbatim>\<open>ft[0]\<close>, \<open>f_range\<close>
  is \<^verbatim>\<open>ft[1]\<close> and \<open>f_rest\<close> is \<^verbatim>\<open>ft[2:]\<close>, the names of the domains the
  filter is restricted to.
\<close>

record filter_entry =
  f_name :: string
  f_range :: f_range
  f_rest :: "string list"

text \<open>
  The variables the configuration file and the mesh import fill, read-only
  during the run. \<open>domains_from_config\<close> lists the keys of \<^verbatim>\<open>domain_optimized\<close>
  in their order; \<open>domain_shells\<close> and \<open>domain_volumes\<close> enumerate the sets of
  the same name.
\<close>

record config =
  domains_from_config :: "string list"
  domain_optimized :: "string \<rightharpoonup> bool"
  domain_density :: "string \<rightharpoonup> real list"
  domain_thickness :: "string \<rightharpoonup> real list"
  domains :: "string \<rightharpoonup> elem list"
  opt_domains :: "elem list"
  domain_shells :: "string \<rightharpoonup> elem list"
  domain_volumes :: "string \<rightharpoonup> elem list"
  area_elm :: "elem \<rightharpoonup> real"
  volume_elm :: "elem \<rightharpoonup> real"
  domain_FI_filled :: bool
  optimization_base :: string
  mass_goal_ratio :: real
  mass_addition_ratio :: real
  mass_removal_ratio :: real
  ratio_type :: string
  FI_violated_tolerance :: int
  tolerance :: real
  iterations_limit :: limit
  filter_list :: "filter_entry list"
  sensitivity_averaging :: bool
  mass_full :: real

section \<open>Log and trace\<close>

datatype log_entry =
    CalculiX_status_201
  | CalculiX_status_1
  | CalculiX_status int
  | Results_not_found
  | Mass_goal_warning
  | Oscillation int
  | Highest_state_info string

datatype event =
    Log log_entry
  | CalculiX_call nat
  | Switching_call nat

section \<open>Initial element states\<close>

text \<open>
  Lines 353--374. The three importers of a continuation file belong to
  \<^verbatim>\<open>beso_lib\<close>; they are parameters.
\<close>

definition init_domain :: "config \<Rightarrow> int \<Rightarrow> string \<Rightarrow> states \<times> event list
    \<Rightarrow> error + (states \<times> event list)" where
  "init_domain cfg cf dn = (\<lambda>(elm_states, log).
     and_then (py_key (domain_density cfg) dn) (\<lambda>dens.
       let (sn, log') =
             (if int (length dens) - 1 < cf
              then (int (length dens) - 1, log @ [Log (Highest_state_info dn)])
              else (cf, log))
       in and_then (py_key (domains cfg) dn) (\<lambda>ens.
            Inr (fold (\<lambda>en s. s(en \<mapsto> sn)) ens elm_states, log'))))"

definition highest_domain :: "config \<Rightarrow> string \<Rightarrow> states \<times> event list
    \<Rightarrow> error + (states \<times> event list)" where
  "highest_domain cfg dn = (\<lambda>(elm_states, log).
     and_then (py_key (domains cfg) dn) (\<lambda>ens.
       for_each (\<lambda>en (s, l).
           and_then (py_key (domain_density cfg) dn) (\<lambda>dens.
             Inr (s(en \<mapsto> int (length dens) - 1), l)))
         ens (elm_states, log)))"

definition init_elm_states :: "config \<Rightarrow> (string \<Rightarrow> states) \<Rightarrow> (string \<Rightarrow> states)
    \<Rightarrow> (string \<Rightarrow> states) \<Rightarrow> continue_from \<Rightarrow> error + (states \<times> event list)" where
  "init_elm_states cfg import_frd_state import_inp_state import_csv_state continue_from =
     (case continue_from of
        Int_state cf \<Rightarrow> for_each (init_domain cfg cf) (domains_from_config cfg) (Map.empty, [])
      | Str_source src \<Rightarrow>
          if last4 src = ''.frd'' then Inr (import_frd_state src, [])
          else if last4 src = ''.inp'' then Inr (import_inp_state src, [])
          else if last4 src = ''.csv'' then Inr (import_csv_state src, [])
          else for_each (highest_domain cfg) (domains_from_config cfg) (Map.empty, []))"

section \<open>Automatic iteration limit\<close>




section \<open>Loop state and the collaborators' results\<close>

text \<open>
  The variables of the iteration cycle (lines 559--576). Dictionaries of element
  states are objects: \<open>heap\<close> holds them, and \<open>elm_states\<close>, \<open>elm_states_last\<close>
  and \<open>elm_states_before_last\<close> are references into it, so that an update in
  place is seen through every reference to the object. \<open>mass_goal_i\<close> is \<open>None\<close>
  as long as the name is unbound.
\<close>

record loop_state =
  iter_i :: nat
  i_violated :: nat
  continue_iterations :: bool
  check_tolerance :: bool
  mass_excess :: real
  mass :: "real list"
  FI_mean :: "real list"
  energy_density_mean :: "real list"
  heat_flux_mean :: "real list"
  FI_violated :: "nat list list"
  mass_goal_i :: "real option"
  FI_step_max :: "elem \<rightharpoonup> real"
  energy_density_enlist :: "elem \<rightharpoonup> real list"
  sensitivity_number :: "elem \<rightharpoonup> real"
  sensitivity_number_old :: "elem \<rightharpoonup> real"
  heap :: "states list"
  elm_states :: nat
  elm_states_last :: nat
  elm_states_before_last :: nat
  oscillations :: bool
  trace :: "event list"

text \<open>
  What the collaborators outside \<^verbatim>\<open>beso_main.py\<close> hand back in one iteration: the
  solver's exit status, the imported results, and the return value of
  \<^verbatim>\<open>beso_lib.switching\<close> (the state dictionary, with \<open>sw_in_place\<close> telling
  whether it is the dictionary that was passed in, updated in place, or a new
  one, and the mass list). \<open>energy_density_eigen\<close> lists the items of the
  dictionary of that name, and for each of them the items of its value, in the
  order of iteration.
\<close>

record iter_env =
  exit_status :: int
  FI_step :: "(elem \<rightharpoonup> real option list) list"
  energy_density_step :: "(elem \<rightharpoonup> real) list"
  buckling_factors :: "real list"
  energy_density_eigen :: "(nat \<times> (elem \<times> real) list) list"
  heat_flux :: "elem \<rightharpoonup> real"
  sw_in_place :: bool
  sw_elm_states :: states
  sw_mass :: "real list"

datatype terminal = CONVERGED | ITERATION_LIMIT | OSCILLATING

datatype outcome =
    Running loop_state
  | Terminated terminal loop_state
  | Failed error "event list"

definition initial_state :: "states \<Rightarrow> real \<Rightarrow> loop_state" where
  "initial_state s0 mass0 =
     \<lparr> iter_i = 0, i_violated = 0, continue_iterations = True, check_tolerance = False,
       mass_excess = 0, mass = [mass0], FI_mean = [], energy_density_mean = [],
       heat_flux_mean = [], FI_violated = [], mass_goal_i = None,
       FI_step_max = Map.empty, energy_density_enlist = Map.empty,
       sensitivity_number = Map.empty, sensitivity_number_old = Map.empty,
       heap = [s0, Map.empty], elm_states = 0, elm_states_last = 0,
       elm_states_before_last = 1, oscillations = False, trace = [] \<rparr>"

definition current_states :: "loop_state \<Rightarrow> states" where
  "current_states st = heap st ! elm_states st"

section \<open>Element masses\<close>

text \<open>
  The mass of a shell element in a state is density times area times the
  thickness of that state; the mass of a volume element is density times volume
  (lines 387, 391, 786 and 797).
\<close>

definition shell_mass :: "config \<Rightarrow> states \<Rightarrow> string \<Rightarrow> elem \<Rightarrow> error + real" where
  "shell_mass cfg s dn en =
     and_then (py_key (domain_density cfg) dn) (\<lambda>dens.
     and_then (py_key s en) (\<lambda>sn.
     and_then (py_get dens sn) (\<lambda>d.
     and_then (py_key (area_elm cfg) en) (\<lambda>a.
     and_then (py_key (domain_thickness cfg) dn) (\<lambda>thick.
     and_then (py_get thick sn) (\<lambda>t. Inr (d * a * t)))))))"

definition volume_mass :: "config \<Rightarrow> states \<Rightarrow> string \<Rightarrow> elem \<Rightarrow> error + real" where
  "volume_mass cfg s dn en =
     and_then (py_key (domain_density cfg) dn) (\<lambda>dens.
     and_then (py_key s en) (\<lambda>sn.
     and_then (py_get dens sn) (\<lambda>d.
     and_then (py_key (volume_elm cfg) en) (\<lambda>v. Inr (d * v)))))"

text \<open>Lines 381--392: the initial mass and the mass of the fully solid design.\<close>

definition initial_masses_domain :: "config \<Rightarrow> states \<Rightarrow> string \<Rightarrow> real \<times> real
    \<Rightarrow> error + (real \<times> real)" where
  "initial_masses_domain cfg s dn acc =
     and_then (py_key (domain_optimized cfg) dn) (\<lambda>opt.
       if opt then
         and_then (py_key (domain_shells cfg) dn) (\<lambda>shells.
         and_then (for_each (\<lambda>en (m0, mf).
               and_then (shell_mass cfg s dn en) (\<lambda>me.
               and_then (py_key (domain_density cfg) dn) (\<lambda>dens.
               and_then (py_get dens (int (length dens) - 1)) (\<lambda>d.
               and_then (py_key (area_elm cfg) en) (\<lambda>a.
               and_then (py_key (domain_thickness cfg) dn) (\<lambda>thick.
               and_then (py_get thick (int (length dens) - 1)) (\<lambda>t.
                 Inr (m0 + me, mf + d * a * t)))))))) shells acc) (\<lambda>acc'.
         and_then (py_key (domain_volumes cfg) dn) (\<lambda>volumes.
           for_each (\<lambda>en (m0, mf).
               and_then (volume_mass cfg s dn en) (\<lambda>me.
               and_then (py_key (domain_density cfg) dn) (\<lambda>dens.
               and_then (py_get dens (int (length dens) - 1)) (\<lambda>d.
               and_then (py_key (volume_elm cfg) en) (\<lambda>v.
                 Inr (m0 + me, mf + d * v)))))) volumes acc')))
       else Inr acc)"

definition initial_masses :: "config \<Rightarrow> states \<Rightarrow> error + (real \<times> real)" where
  "initial_masses cfg s = for_each (initial_masses_domain cfg s) (domains_from_config cfg) (0, 0)"

section \<open>Sensitivity numbers\<close>

fun drop_none :: "'a option list \<Rightarrow> 'a list" where
  "drop_none [] = []"
| "drop_none (None # xs) = drop_none xs"
| "drop_none (Some x # xs) = x # drop_none xs"

text \<open>
  Lines 641--658: the maximal failure index of every domain. Only its failures
  reach the control flow; the maxima themselves are printed.
\<close>

definition FI_max_step :: "iter_env \<Rightarrow> elem \<Rightarrow> nat \<Rightarrow> real \<Rightarrow> error + real" where
  "FI_max_step env en sn acc =
     and_then (py_get (FI_step env) (int sn)) (\<lambda>step.
       case step en of
         None \<Rightarrow> Inl Exception_missing_values
       | Some vs \<Rightarrow>
           (case py_max (drop_none vs) of
              Inl e \<Rightarrow> Inl Exception_FI_max
            | Inr m \<Rightarrow> Inr (max acc m)))"

definition FI_max_domain :: "config \<Rightarrow> iter_env \<Rightarrow> string \<Rightarrow> (string \<rightharpoonup> real)
    \<Rightarrow> error + (string \<rightharpoonup> real)" where
  "FI_max_domain cfg env dn fi_max =
     and_then (py_key (domains cfg) dn) (\<lambda>ens.
     and_then (for_each (\<lambda>en acc.
          for_each (FI_max_step env en) [0..<length (FI_step env)] acc) ens 0) (\<lambda>m.
       Inr (fi_max(dn \<mapsto> m))))"

definition FI_max_all :: "config \<Rightarrow> iter_env \<Rightarrow> error + (string \<rightharpoonup> real)" where
  "FI_max_all cfg env =
     (if domain_FI_filled cfg
      then for_each (FI_max_domain cfg env) (domains_from_config cfg) Map.empty
      else Inr Map.empty)"

text \<open>
  Lines 673--678: one load step of one element. The pair is
  \<^verbatim>\<open>FI_step_max[en]\<close> and \<^verbatim>\<open>energy_density_enlist[en]\<close>.
\<close>

definition element_step :: "config \<Rightarrow> iter_env \<Rightarrow> elem \<Rightarrow> nat \<Rightarrow> real \<times> real list
    \<Rightarrow> error + (real \<times> real list)" where
  "element_step cfg env en sn = (\<lambda>(fmax, enlist).
     and_then
       (if domain_FI_filled cfg then
          and_then (py_get (FI_step env) (int sn)) (\<lambda>step.
          and_then (py_key step en) (\<lambda>vs.
          and_then (py_max (drop_none vs)) (\<lambda>m. Inr (max fmax m))))
        else Inr fmax)
       (\<lambda>fmax'.
          if optimization_base cfg = ''stiffness'' then
            and_then (py_get (energy_density_step env) (int sn)) (\<lambda>step.
            and_then (py_key step en) (\<lambda>e. Inr (fmax', enlist @ [e])))
          else Inr (fmax', enlist)))"

definition FI_step_max_en :: "config \<Rightarrow> iter_env \<Rightarrow> elem \<Rightarrow> error + (real \<times> real list)" where
  "FI_step_max_en cfg env en =
     for_each (element_step cfg env en) [0..<length (FI_step env)] (0, [])"

text \<open>
  Lines 679--687: the sensitivity number of an element of domain \<open>dn\<close>; \<open>None\<close>
  where the objective assigns none in this loop (the buckling objective assigns
  its sensitivity numbers after the loop).
\<close>

definition sensitivity_of :: "config \<Rightarrow> iter_env \<Rightarrow> states \<Rightarrow> string \<Rightarrow> elem \<Rightarrow> real
    \<Rightarrow> real list \<Rightarrow> error + real option" where
  "sensitivity_of cfg env s dn en fmax enlist =
     (if optimization_base cfg = ''stiffness'' then
        and_then (py_max enlist) (\<lambda>m. Inr (Some m))
      else if optimization_base cfg = ''heat'' then
        (case and_then (py_key (heat_flux env) en) (\<lambda>h.
              and_then (py_key (volume_elm cfg) en) (\<lambda>v. py_div h v)) of
           Inl KeyError \<Rightarrow>
             and_then (py_key (heat_flux env) en) (\<lambda>h.
             and_then (py_key (area_elm cfg) en) (\<lambda>a.
             and_then (py_key (domain_thickness cfg) dn) (\<lambda>thick.
             and_then (py_key s en) (\<lambda>sn.
             and_then (py_get thick sn) (\<lambda>t.
             and_then (py_div h (a * t)) (\<lambda>q. Inr (Some q)))))))
         | Inl e \<Rightarrow> Inl e
         | Inr q \<Rightarrow> Inr (Some q))
      else if optimization_base cfg = ''failure_index'' then
        and_then (py_key (domain_density cfg) dn) (\<lambda>dens.
        and_then (py_key s en) (\<lambda>sn.
        and_then (py_get dens sn) (\<lambda>d.
        and_then (py_div fmax d) (\<lambda>q. Inr (Some q)))))
      else Inr None)"

text \<open>
  Lines 663--693. The loop state is \<^verbatim>\<open>FI_step_max\<close>,
  \<^verbatim>\<open>energy_density_enlist\<close>, \<^verbatim>\<open>sensitivity_number\<close> and the row
  \<^verbatim>\<open>FI_violated[i]\<close>.
\<close>

type_synonym sens_state =
  "(elem \<rightharpoonup> real) \<times> (elem \<rightharpoonup> real list) \<times> (elem \<rightharpoonup> real) \<times> nat list"

definition sensitivity_element :: "config \<Rightarrow> iter_env \<Rightarrow> states \<Rightarrow> string \<Rightarrow> elem
    \<Rightarrow> sens_state \<Rightarrow> error + sens_state" where
  "sensitivity_element cfg env s dn en = (\<lambda>(fsm, edl, sens, row).
     and_then (FI_step_max_en cfg env en) (\<lambda>(fmax, enlist).
     and_then (sensitivity_of cfg env s dn en fmax enlist) (\<lambda>sv.
       Inr (fsm(en \<mapsto> fmax),
            (if optimization_base cfg = ''stiffness'' then edl(en \<mapsto> enlist) else edl),
            (case sv of None \<Rightarrow> sens | Some v \<Rightarrow> sens(en \<mapsto> v)),
            (if domain_FI_filled cfg \<and> fmax \<ge> 1
             then butlast row @ [last row + 1] else row)))))"

definition sensitivity_domain :: "config \<Rightarrow> iter_env \<Rightarrow> states \<Rightarrow> string
    \<Rightarrow> sens_state \<Rightarrow> error + sens_state" where
  "sensitivity_domain cfg env s dn = (\<lambda>(fsm, edl, sens, row).
     and_then (py_key (domains cfg) dn) (\<lambda>ens.
       for_each (sensitivity_element cfg env s dn) ens (fsm, edl, sens, row @ [0])))"

definition sensitivity_loop :: "config \<Rightarrow> iter_env \<Rightarrow> states \<Rightarrow> (elem \<rightharpoonup> real)
    \<Rightarrow> error + sens_state" where
  "sensitivity_loop cfg env s sens =
     for_each (sensitivity_domain cfg env s) (domains_from_config cfg)
       (Map.empty, Map.empty, sens, [])"

text \<open>
  Lines 696--714: the sensitivity numbers of the buckling objective. The
  denominators are the maxima of the eigen energy densities; \<open>bf_coef\<close> lists
  the items of the dictionary \<^verbatim>\<open>bf_coef\<close>, whose keys are those of
  \<^verbatim>\<open>bf_dif\<close>.
\<close>

definition buckling_denominator :: "nat \<times> (elem \<times> real) list \<Rightarrow> real list
    \<Rightarrow> error + real list" where
  "buckling_denominator item denominator =
     and_then (py_max (map snd (snd item))) (\<lambda>m. Inr (denominator @ [m]))"

definition buckling_influence :: "real list \<Rightarrow> nat \<Rightarrow> (nat \<times> real) list
    \<Rightarrow> error + (nat \<times> real) list" where
  "buckling_influence bfs bfn bf_coef =
     and_then (py_get bfs (int bfn + 1)) (\<lambda>b.
     and_then (py_get bfs 0) (\<lambda>b0.
       if b - b0 < 2/10 then Inr (bf_coef @ [(bfn, (b - b0) / (2/10))]) else Inr bf_coef))"

definition buckling_term :: "iter_env \<Rightarrow> real list \<Rightarrow> elem \<Rightarrow> nat \<times> real
    \<Rightarrow> (elem \<rightharpoonup> real) \<Rightarrow> error + (elem \<rightharpoonup> real)" where
  "buckling_term env denominator en = (\<lambda>(bfn, coef) sens.
     and_then (py_key sens en) (\<lambda>cur.
     and_then (py_item (energy_density_eigen env) (bfn + 1)) (\<lambda>eigen.
     and_then (py_item eigen en) (\<lambda>e.
     and_then (py_get denominator (int bfn)) (\<lambda>d.
     and_then (py_div e d) (\<lambda>q. Inr (sens(en \<mapsto> cur + q * coef))))))))"

definition buckling_element :: "iter_env \<Rightarrow> real list \<Rightarrow> (nat \<times> real) list \<Rightarrow> elem
    \<Rightarrow> (elem \<rightharpoonup> real) \<Rightarrow> error + (elem \<rightharpoonup> real)" where
  "buckling_element env denominator bf_coef en sens =
     and_then (py_item (energy_density_eigen env) 1) (\<lambda>eigen.
     and_then (py_item eigen en) (\<lambda>e.
     and_then (py_get denominator 0) (\<lambda>d.
     and_then (py_div e d) (\<lambda>q.
       for_each (buckling_term env denominator en) bf_coef (sens(en \<mapsto> q))))))"

definition buckling_sensitivities :: "config \<Rightarrow> iter_env \<Rightarrow> (elem \<rightharpoonup> real)
    \<Rightarrow> error + (elem \<rightharpoonup> real)" where
  "buckling_sensitivities cfg env sens =
     (if optimization_base cfg = ''buckling'' then
        and_then (for_each buckling_denominator (energy_density_eigen env) []) (\<lambda>denominator.
        and_then (for_each (buckling_influence (buckling_factors env))
                    [0..<length (buckling_factors env) - 1] []) (\<lambda>bf_coef.
          for_each (\<lambda>dn sens1.
              and_then (py_key (domains cfg) dn) (\<lambda>ens.
                for_each (buckling_element env denominator bf_coef) ens sens1))
            (domains_from_config cfg) sens))
      else Inr sens)"

section \<open>Mean values of the iteration\<close>

text \<open>
  Lines 775--820. The three sums are \<^verbatim>\<open>FI_mean_sum\<close>,
  \<^verbatim>\<open>energy_density_mean_sum\<close> and \<^verbatim>\<open>heat_flux_mean_sum\<close>; the sums
  without state 0 are only printed.
\<close>

definition mean_element :: "config \<Rightarrow> iter_env \<Rightarrow> (elem \<rightharpoonup> real) \<Rightarrow> (elem \<rightharpoonup> real list)
    \<Rightarrow> elem \<Rightarrow> real \<Rightarrow> real \<times> real \<times> real \<Rightarrow> error + (real \<times> real \<times> real)" where
  "mean_element cfg env fsm edl en mass_elm = (\<lambda>(fi, ed, hf).
     and_then (if domain_FI_filled cfg
               then and_then (py_key fsm en) (\<lambda>f. Inr (fi + f * mass_elm))
               else Inr fi) (\<lambda>fi'.
     and_then (if optimization_base cfg = ''stiffness''
               then and_then (py_key edl en) (\<lambda>es.
                    and_then (py_max es) (\<lambda>m. Inr (ed + m * mass_elm)))
               else Inr ed) (\<lambda>ed'.
     and_then (if optimization_base cfg = ''heat''
               then and_then (py_key (heat_flux env) en) (\<lambda>h. Inr (hf + h * mass_elm))
               else Inr hf) (\<lambda>hf'. Inr (fi', ed', hf')))))"

definition mean_domain :: "config \<Rightarrow> iter_env \<Rightarrow> states \<Rightarrow> (elem \<rightharpoonup> real)
    \<Rightarrow> (elem \<rightharpoonup> real list) \<Rightarrow> string \<Rightarrow> real \<times> real \<times> real
    \<Rightarrow> error + (real \<times> real \<times> real)" where
  "mean_domain cfg env s fsm edl dn acc0 =
     and_then (py_key (domain_optimized cfg) dn) (\<lambda>opt.
       if opt then
         and_then (py_key (domain_shells cfg) dn) (\<lambda>shells.
         and_then (for_each (\<lambda>en acc.
              and_then (shell_mass cfg s dn en) (\<lambda>mass_elm.
                mean_element cfg env fsm edl en mass_elm acc)) shells acc0) (\<lambda>acc1.
         and_then (py_key (domain_volumes cfg) dn) (\<lambda>volumes.
           for_each (\<lambda>en acc.
              and_then (volume_mass cfg s dn en) (\<lambda>mass_elm.
                mean_element cfg env fsm edl en mass_elm acc)) volumes acc1)))
       else Inr acc0)"

definition mean_values :: "config \<Rightarrow> iter_env \<Rightarrow> (elem \<rightharpoonup> real) \<Rightarrow> (elem \<rightharpoonup> real list)
    \<Rightarrow> loop_state \<Rightarrow> error + loop_state" where
  "mean_values cfg env fsm edl st =
     and_then (for_each (mean_domain cfg env (current_states st) fsm edl)
                 (domains_from_config cfg) (0, 0, 0)) (\<lambda>(fi, ed, hf).
     and_then (if domain_FI_filled cfg
               then and_then (py_get (mass st) (int (iter_i st))) (\<lambda>m.
                    and_then (py_div fi m) (\<lambda>q. Inr (st\<lparr>FI_mean := FI_mean st @ [q]\<rparr>)))
               else Inr st) (\<lambda>st1.
     and_then (if optimization_base cfg = ''stiffness''
               then and_then (py_get (mass st1) (int (iter_i st1))) (\<lambda>m.
                    and_then (py_div ed m) (\<lambda>q.
                      Inr (st1\<lparr>energy_density_mean := energy_density_mean st1 @ [q]\<rparr>)))
               else Inr st1) (\<lambda>st2.
       if optimization_base cfg = ''heat''
       then and_then (py_get (mass st2) (int (iter_i st2))) (\<lambda>m.
            and_then (py_div hf m) (\<lambda>q.
              Inr (st2\<lparr>heat_flux_mean := heat_flux_mean st2 @ [q]\<rparr>)))
       else Inr st2)))"

section \<open>Convergence and iteration limit\<close>

text \<open>
  Lines 873--897, for one of the two lists \<^verbatim>\<open>FI_mean\<close> and
  \<^verbatim>\<open>energy_density_mean\<close>; the result is the new value of
  \<^verbatim>\<open>continue_iterations\<close>.
\<close>

definition relative_difference :: "real list \<Rightarrow> nat \<Rightarrow> nat \<Rightarrow> real list \<Rightarrow> error + real list" where
  "relative_difference xs k l acc =
     and_then (py_get xs (int k)) (\<lambda>a.
     and_then (py_get xs (int k - int l)) (\<lambda>b.
     and_then (py_div \<bar>a - b\<bar> a) (\<lambda>d. Inr (acc @ [d]))))"

definition check_mean :: "real \<Rightarrow> real list \<Rightarrow> nat \<Rightarrow> bool \<Rightarrow> error + bool" where
  "check_mean tol xs k cont =
     (if length xs > 5 then
        and_then (for_each (relative_difference xs k) [1..<6] []) (\<lambda>difference_last.
        and_then (py_max difference_last) (\<lambda>difference.
          if difference < tol then Inr False
          else
            and_then (py_get xs (int k)) (\<lambda>a.
            and_then (py_get xs (int k - 1)) (\<lambda>b.
              if a = b
              then and_then (py_get xs (int k - 2)) (\<lambda>c. Inr (if b = c then False else cont))
              else Inr cont))))
      else Inr cont)"

definition convergence_checks :: "config \<Rightarrow> loop_state \<Rightarrow> error + loop_state" where
  "convergence_checks cfg st =
     and_then (check_mean (tolerance cfg) (FI_mean st) (iter_i st) (continue_iterations st))
       (\<lambda>c1.
     and_then (check_mean (tolerance cfg) (energy_density_mean st) (iter_i st) c1) (\<lambda>c2.
       Inr (st\<lparr>continue_iterations := c2\<rparr>)))"

text \<open>
  Line 900: \<^verbatim>\<open>continue_iterations is False or i >= iterations_limit\<close>. The limit
  is the one initialisation left in the variable; comparing an integer with the
  string \<^verbatim>\<open>"auto"\<close> raises.
\<close>

definition finished :: "config \<Rightarrow> loop_state \<Rightarrow> error + bool" where
  "finished cfg st =
     (if \<not> continue_iterations st then Inr True
      else case iterations_limit cfg of
             Auto \<Rightarrow> Inl TypeError
           | Limit n \<Rightarrow> Inr (int (iter_i st) \<ge> n))"

section \<open>Mass goal of the iteration\<close>

text \<open>Lines 923--951, after \<^verbatim>\<open>i += 1\<close>.\<close>

definition set_mass_goal :: "config \<Rightarrow> loop_state \<Rightarrow> error + loop_state" where
  "set_mass_goal cfg st =
     (if mass_removal_ratio cfg - mass_addition_ratio cfg > 0 then
        and_then (py_get (FI_violated st) (int (iter_i st) - 1)) (\<lambda>prev.
        and_then (py_get (FI_violated st) 0) (\<lambda>first.
        and_then (py_get (mass st) (int (iter_i st) - 1)) (\<lambda>m.
          if int (sum_list prev) > int (sum_list first) + FI_violated_tolerance cfg then
            (let st1 = (if m \<ge> mass_goal_ratio cfg * mass_full cfg
                        then st\<lparr>mass_goal_i := Some m\<rparr>
                        else st\<lparr>mass_goal_i := Some (mass_goal_ratio cfg * mass_full cfg)\<rparr>)
             in Inr (if i_violated st1 = 0
                     then st1\<lparr>i_violated := iter_i st1, check_tolerance := True\<rparr>
                     else st1))
          else if m \<le> mass_goal_ratio cfg * mass_full cfg then
            (let st1 = (if i_violated st = 0
                        then st\<lparr>i_violated := iter_i st, check_tolerance := True\<rparr>
                        else st)
             in Inr (if mass_goal_i st1 = None
                     then st1\<lparr>trace := trace st1 @ [Log Mass_goal_warning]\<rparr>
                     else st1))
          else Inr (st\<lparr>mass_goal_i := Some (mass_goal_ratio cfg * mass_full cfg)\<rparr>))))
      else
        and_then (py_get (mass st) (int (iter_i st) - 1)) (\<lambda>m.
          if m < mass_goal_ratio cfg * mass_full cfg then
            Inr (st\<lparr>mass_goal_i :=
                   Some (m + (mass_addition_ratio cfg - mass_removal_ratio cfg) * mass_full cfg)\<rparr>)
          else
            (let st1 = (if i_violated st = 0
                        then st\<lparr>i_violated := iter_i st, check_tolerance := True\<rparr>
                        else st)
             in Inr (st1\<lparr>mass_goal_i := Some (mass_goal_ratio cfg * mass_full cfg)\<rparr>))))"

section \<open>The call of the state-switching engine\<close>

text \<open>
  Lines 955--963. \<^verbatim>\<open>mass_referential\<close> is bound only for the two known ratio
  types, \<^verbatim>\<open>mass_goal_i\<close> only once a mass goal has been assigned; evaluating an
  unbound argument raises before \<^verbatim>\<open>beso_lib.switching\<close> is entered. The
  function itself is not part of \<^verbatim>\<open>beso_main.py\<close>: its return value is read
  from \<open>iter_env\<close>.
\<close>

definition mass_referential :: "config \<Rightarrow> loop_state \<Rightarrow> error + real option" where
  "mass_referential cfg st =
     (if ratio_type cfg = ''absolute'' then Inr (Some (mass_full cfg))
      else if ratio_type cfg = ''relative''
      then and_then (py_get (mass st) (int (iter_i st) - 1)) (\<lambda>m. Inr (Some m))
      else Inr None)"

definition switch_states :: "config \<Rightarrow> iter_env \<Rightarrow> loop_state \<Rightarrow> error + loop_state" where
  "switch_states cfg env st =
     and_then (mass_referential cfg st) (\<lambda>mr.
       case mr of
         None \<Rightarrow> Inl NameError
       | Some r \<Rightarrow>
          (case mass_goal_i st of
             None \<Rightarrow> Inl NameError
           | Some g \<Rightarrow>
              (let st1 = st\<lparr>trace := trace st @ [Switching_call (iter_i st)]\<rparr>
               in if sw_in_place env
                  then Inr (st1\<lparr>heap := (heap st1)[elm_states st1 := sw_elm_states env],
                                mass := sw_mass env\<rparr>)
                  else Inr (st1\<lparr>heap := heap st1 @ [sw_elm_states env],
                                elm_states := length (heap st1),
                                mass := sw_mass env\<rparr>))))"

section \<open>Filtering\<close>

definition truthy :: "f_range \<Rightarrow> bool" where
  "truthy r = (case r of Range x \<Rightarrow> x \<noteq> 0 | Auto_range \<Rightarrow> True)"

definition morphology :: "string list" where
  "morphology = [''erode'', ''dilate'', ''open'', ''close'', ''open-close'', ''close-open'',
                 ''combine'']"

text \<open>
  \<^verbatim>\<open>domains_to_filter\<close>: all optimised elements when the filter names no
  domain, else the elements of the named domains.
\<close>

definition domains_to_filter :: "config \<Rightarrow> filter_entry \<Rightarrow> error + elem list" where
  "domains_to_filter cfg ft =
     (if f_rest ft = [] then Inr (opt_domains cfg)
      else for_each (\<lambda>dn acc. and_then (py_key (domains cfg) dn) (\<lambda>ens. Inr (acc @ ens)))
             (f_rest ft) [])"

text \<open>
  Lines 717--764: filtering of the sensitivity numbers. The filters belong to
  \<^verbatim>\<open>beso_filters\<close>; \<open>run_filter\<close> stands for them. The loop keeps the
  source's selection of the filter and the failures of its own lookups.
\<close>

definition filter_sensitivity :: "config
    \<Rightarrow> (filter_entry \<Rightarrow> elem list \<Rightarrow> (elem \<rightharpoonup> real) \<Rightarrow> (elem \<rightharpoonup> real))
    \<Rightarrow> filter_entry \<Rightarrow> (elem \<rightharpoonup> real) \<Rightarrow> error + (elem \<rightharpoonup> real)" where
  "filter_sensitivity cfg run_filter ft sens =
     (if f_name ft \<noteq> [] \<and> truthy (f_range ft) then
        and_then (domains_to_filter cfg ft) (\<lambda>dtf.
          if f_name ft = ''casting'' then Inr (run_filter ft dtf sens)
          else if f_name ft = ''over points'' then Inr (run_filter ft dtf sens)
          else if f_name ft = ''over nodes'' then Inr (run_filter ft dtf sens)
          else if f_name ft = ''simple'' then Inr (run_filter ft dtf sens)
          else
            and_then (py_get (py_split (f_name ft)) 0) (\<lambda>op.
              if op \<in> set morphology then
                and_then (py_get (py_split (f_name ft)) 1) (\<lambda>target.
                  if target = ''sensitivity'' then Inr (run_filter ft dtf sens)
                  else Inr sens)
              else Inr sens))
      else Inr sens)"

definition average_sensitivity :: "nat \<Rightarrow> elem \<Rightarrow> (elem \<rightharpoonup> real) \<times> (elem \<rightharpoonup> real)
    \<Rightarrow> error + ((elem \<rightharpoonup> real) \<times> (elem \<rightharpoonup> real))" where
  "average_sensitivity k en = (\<lambda>(sens, old).
     and_then (if k > 0
               then and_then (py_key sens en) (\<lambda>a.
                    and_then (py_key old en) (\<lambda>b. Inr (sens(en \<mapsto> (a + b) / 2))))
               else Inr sens) (\<lambda>sens'.
     and_then (py_key sens' en) (\<lambda>a. Inr (sens', old(en \<mapsto> a)))))"

definition sensitivity_filtering :: "config
    \<Rightarrow> (filter_entry \<Rightarrow> elem list \<Rightarrow> (elem \<rightharpoonup> real) \<Rightarrow> (elem \<rightharpoonup> real))
    \<Rightarrow> loop_state \<Rightarrow> error + loop_state" where
  "sensitivity_filtering cfg run_filter st =
     and_then (for_each (filter_sensitivity cfg run_filter) (filter_list cfg)
                 (sensitivity_number st)) (\<lambda>sens.
     and_then (if sensitivity_averaging cfg
               then for_each (average_sensitivity (iter_i st)) (opt_domains cfg)
                      (sens, sensitivity_number_old st)
               else Inr (sens, sensitivity_number_old st)) (\<lambda>(sens', old').
       Inr (st\<lparr>sensitivity_number := sens', sensitivity_number_old := old'\<rparr>)))"

text \<open>
  Lines 988--1001: the mass difference of one element whose filtered state
  differs, and the update of its state. The pair is the list \<^verbatim>\<open>mass\<close> and
  the dictionary \<^verbatim>\<open>elm_states\<close>.
\<close>

definition correct_shell :: "config \<Rightarrow> states \<Rightarrow> nat \<Rightarrow> string \<Rightarrow> elem
    \<Rightarrow> real list \<times> states \<Rightarrow> error + (real list \<times> states)" where
  "correct_shell cfg filtered k dn en = (\<lambda>(ms, s).
     and_then (py_key s en) (\<lambda>cur.
     and_then (py_key filtered en) (\<lambda>new.
       if cur \<noteq> new then
         and_then (py_get ms (int k)) (\<lambda>mk.
         and_then (py_key (area_elm cfg) en) (\<lambda>a.
         and_then (py_key (domain_density cfg) dn) (\<lambda>dens.
         and_then (py_get dens new) (\<lambda>d_new.
         and_then (py_key (domain_thickness cfg) dn) (\<lambda>thick.
         and_then (py_get thick new) (\<lambda>t_new.
         and_then (py_get dens cur) (\<lambda>d_cur.
         and_then (py_get thick cur) (\<lambda>t_cur.
           Inr (ms[k := mk + a * (d_new * t_new - d_cur * t_cur)], s(en \<mapsto> new))))))))))
       else Inr (ms, s))))"

definition correct_volume :: "config \<Rightarrow> states \<Rightarrow> nat \<Rightarrow> string \<Rightarrow> elem
    \<Rightarrow> real list \<times> states \<Rightarrow> error + (real list \<times> states)" where
  "correct_volume cfg filtered k dn en = (\<lambda>(ms, s).
     and_then (py_key s en) (\<lambda>cur.
     and_then (py_key filtered en) (\<lambda>new.
       if cur \<noteq> new then
         and_then (py_get ms (int k)) (\<lambda>mk.
         and_then (py_key (volume_elm cfg) en) (\<lambda>v.
         and_then (py_key (domain_density cfg) dn) (\<lambda>dens.
         and_then (py_get dens new) (\<lambda>d_new.
         and_then (py_get dens cur) (\<lambda>d_cur.
           Inr (ms[k := mk + v * (d_new - d_cur)], s(en \<mapsto> new)))))))
       else Inr (ms, s))))"

definition correct_domain :: "config \<Rightarrow> states \<Rightarrow> nat \<Rightarrow> string
    \<Rightarrow> real list \<times> states \<Rightarrow> error + (real list \<times> states)" where
  "correct_domain cfg filtered k dn acc =
     and_then (py_key (domain_optimized cfg) dn) (\<lambda>opt.
       if opt then
         and_then (py_key (domain_shells cfg) dn) (\<lambda>shells.
         and_then (for_each (correct_shell cfg filtered k dn) shells acc) (\<lambda>acc'.
         and_then (py_key (domain_volumes cfg) dn) (\<lambda>volumes.
           for_each (correct_volume cfg filtered k dn) volumes acc')))
       else Inr acc)"

text \<open>
  Lines 970--1001: one entry of \<^verbatim>\<open>filter_list\<close> in the state-filtering loop.
  \<open>run_morphology\<close> stands for \<^verbatim>\<open>beso_filters.run_morphology\<close> applied to the
  element states, the elements to filter, the operator and
  \<^verbatim>\<open>FI_step_max\<close>. The triple is \<^verbatim>\<open>mass\<close>, \<^verbatim>\<open>elm_states\<close> and
  \<^verbatim>\<open>state_filter_done\<close>.
\<close>

definition filter_state :: "config
    \<Rightarrow> (states \<Rightarrow> elem list \<Rightarrow> string \<Rightarrow> (elem \<rightharpoonup> real) \<Rightarrow> states)
    \<Rightarrow> (elem \<rightharpoonup> real) \<Rightarrow> nat \<Rightarrow> filter_entry
    \<Rightarrow> real list \<times> states \<times> bool \<Rightarrow> error + (real list \<times> states \<times> bool)" where
  "filter_state cfg run_morphology fsm k ft = (\<lambda>(ms, s, done).
     if f_name ft \<noteq> [] \<and> truthy (f_range ft) then
       if f_name ft = ''casting'' then Inr (ms, s, done)
       else
         and_then (domains_to_filter cfg ft) (\<lambda>dtf.
         and_then (py_get (py_split (f_name ft)) 0) (\<lambda>op.
           if op \<in> set morphology then
             and_then (py_get (py_split (f_name ft)) 1) (\<lambda>target.
               if target = ''state'' then
                 and_then (for_each (correct_domain cfg (run_morphology s dtf op fsm) k)
                             (domains_from_config cfg) (ms, s)) (\<lambda>(ms', s').
                   Inr (ms', s', True))
               else Inr (ms, s, done))
           else Inr (ms, s, done)))
     else Inr (ms, s, done))"

text \<open>
  Lines 966--1007. The corrected states are written into the dictionary
  \<^verbatim>\<open>elm_states\<close> refers to, which is updated in place.
\<close>

definition state_filtering :: "config
    \<Rightarrow> (states \<Rightarrow> elem list \<Rightarrow> string \<Rightarrow> (elem \<rightharpoonup> real) \<Rightarrow> states)
    \<Rightarrow> loop_state \<Rightarrow> error + loop_state" where
  "state_filtering cfg run_morphology st =
     and_then (py_get (mass st) (int (iter_i st))) (\<lambda>mass_not_filtered.
     and_then (for_each (filter_state cfg run_morphology (FI_step_max st) (iter_i st))
                 (filter_list cfg) (mass st, current_states st, False)) (\<lambda>(ms, s, done).
     and_then (py_get ms (int (iter_i st))) (\<lambda>mi.
       Inr (st\<lparr>mass := ms, heap := (heap st)[elm_states st := s],
               mass_excess := mi - mass_not_filtered\<rparr>))))"

section \<open>Oscillation check\<close>

text \<open>
  Lines 1029--1037. The comparison is between dictionaries; the two assignments
  after it store copies, which are new objects.
\<close>

definition check_oscillation :: "loop_state \<Rightarrow> outcome" where
  "check_oscillation st =
     (if heap st ! elm_states_before_last st = heap st ! elm_states st
      then Terminated OSCILLATING
             (st\<lparr>trace := trace st @ [Log (Oscillation (int (iter_i st) - 2))],
                 oscillations := True\<rparr>)
      else Running
             (st\<lparr>heap := heap st @ [heap st ! elm_states_last st, heap st ! elm_states st],
                 elm_states_before_last := length (heap st),
                 elm_states_last := length (heap st) + 1\<rparr>))"

section \<open>One pass of the iteration cycle\<close>

text \<open>Lines 598--610: the exit status of the solver is written to the log.\<close>

definition check_exit_status :: "int \<Rightarrow> event list" where
  "check_exit_status status =
     (if status = 201 then [Log CalculiX_status_201]
      else if status = 1 then [Log CalculiX_status_1]
      else if status \<noteq> 0 then [Log (CalculiX_status status)]
      else [])"

text \<open>Lines 581--610: the solver runs and its exit status is examined.\<close>

definition begin_iteration :: "iter_env \<Rightarrow> loop_state \<Rightarrow> loop_state" where
  "begin_iteration env st =
     st\<lparr>trace := trace st @ [CalculiX_call (iter_i st)] @ check_exit_status (exit_status env)\<rparr>"

text \<open>Lines 626--639.\<close>

definition missing_ccx_results :: "config \<Rightarrow> iter_env \<Rightarrow> bool" where
  "missing_ccx_results cfg env =
     (if optimization_base cfg = ''stiffness'' \<and> energy_density_step env = [] then True
      else if optimization_base cfg = ''buckling'' \<and> buckling_factors env = [] then True
      else if optimization_base cfg = ''heat'' \<and> heat_flux env = Map.empty then True
      else if domain_FI_filled cfg \<and> FI_step env = [] then True
      else False)"

text \<open>
  Lines 641--820: the reduction of the imported results to sensitivity numbers,
  violation counters and mean values. The printed lines, the rows of the log
  table, exports and plots are left out.
\<close>

definition reduce_results :: "config
    \<Rightarrow> (filter_entry \<Rightarrow> elem list \<Rightarrow> (elem \<rightharpoonup> real) \<Rightarrow> (elem \<rightharpoonup> real))
    \<Rightarrow> iter_env \<Rightarrow> loop_state \<Rightarrow> error + loop_state" where
  "reduce_results cfg run_filter env st =
     and_then (FI_max_all cfg env) (\<lambda>fi_max.
     and_then (sensitivity_loop cfg env (current_states st) (sensitivity_number st))
       (\<lambda>(fsm, edl, sens0, row).
     and_then (buckling_sensitivities cfg env sens0) (\<lambda>sens.
     and_then (sensitivity_filtering cfg run_filter
                 (st\<lparr>FI_step_max := fsm, energy_density_enlist := edl,
                     sensitivity_number := sens,
                     FI_violated := FI_violated st @ [row]\<rparr>)) (\<lambda>st1.
       mean_values cfg env fsm edl st1))))"

definition or_fail :: "event list \<Rightarrow> error + 'a \<Rightarrow> ('a \<Rightarrow> outcome) \<Rightarrow> outcome" where
  "or_fail tr r f = (case r of Inl e \<Rightarrow> Failed e tr | Inr x \<Rightarrow> f x)"

text \<open>
  The body of \<^verbatim>\<open>while True\<close> (lines 578--1072). \<open>Running\<close> is the end of the
  body without \<^verbatim>\<open>break\<close>; the \<^verbatim>\<open>break\<close> of line 913 is \<open>CONVERGED\<close> when
  \<^verbatim>\<open>continue_iterations\<close> is false and \<open>ITERATION_LIMIT\<close> otherwise, the one of
  line 1035 is \<open>OSCILLATING\<close>. A failure ends the run with the trace so far.
\<close>

definition iteration :: "config
    \<Rightarrow> (filter_entry \<Rightarrow> elem list \<Rightarrow> (elem \<rightharpoonup> real) \<Rightarrow> (elem \<rightharpoonup> real))
    \<Rightarrow> (states \<Rightarrow> elem list \<Rightarrow> string \<Rightarrow> (elem \<rightharpoonup> real) \<Rightarrow> states)
    \<Rightarrow> iter_env \<Rightarrow> loop_state \<Rightarrow> outcome" where
  "iteration cfg run_filter run_morphology env st =
     (let st1 = begin_iteration env st
      in if missing_ccx_results cfg env
         then Failed AssertionError (trace st1 @ [Log Results_not_found])
         else
           or_fail (trace st1) (reduce_results cfg run_filter env st1) (\<lambda>st2.
           or_fail (trace st2) (convergence_checks cfg st2) (\<lambda>st3.
           or_fail (trace st3) (finished cfg st3) (\<lambda>fin.
             if fin
             then Terminated (if \<not> continue_iterations st3 then CONVERGED
                              else ITERATION_LIMIT) st3
             else
               (let st4 = st3\<lparr>iter_i := iter_i st3 + 1\<rparr>
                in or_fail (trace st4) (set_mass_goal cfg st4) (\<lambda>st5.
                   or_fail (trace st5) (switch_states cfg env st5) (\<lambda>st6.
                   or_fail (trace st6) (state_filtering cfg run_morphology st6)
                     check_oscillation)))))))"

text \<open>
  The cycle over the results the collaborators deliver, one \<open>iter_env\<close> per pass;
  \<open>Running\<close> when they are used up before the cycle has ended.
\<close>

fun run :: "config
    \<Rightarrow> (filter_entry \<Rightarrow> elem list \<Rightarrow> (elem \<rightharpoonup> real) \<Rightarrow> (elem \<rightharpoonup> real))
    \<Rightarrow> (states \<Rightarrow> elem list \<Rightarrow> string \<Rightarrow> (elem \<rightharpoonup> real) \<Rightarrow> states)
    \<Rightarrow> loop_state \<Rightarrow> iter_env list \<Rightarrow> outcome" where
  "run cfg run_filter run_morphology st [] = Running st"
| "run cfg run_filter run_morphology st (env # envs) =
     (case iteration cfg run_filter run_morphology env st of
        Running st' \<Rightarrow> run cfg run_filter run_morphology st' envs
      | out \<Rightarrow> out)"

section \<open>The convergence criterion in the words of the specification\<close>




section \<open>Example inputs\<close>

definition example_config :: config where
  "example_config = \<lparr> domains_from_config = [''d''],
     domain_optimized = [''d'' \<mapsto> True],
     domain_density = [''d'' \<mapsto> [1/1000, 1]],
     domain_thickness = [''d'' \<mapsto> []],
     domains = [''d'' \<mapsto> [1, 2]],
     opt_domains = [1, 2],
     domain_shells = [''d'' \<mapsto> []],
     domain_volumes = [''d'' \<mapsto> [1, 2]],
     area_elm = Map.empty,
     volume_elm = [1 \<mapsto> 50, 2 \<mapsto> 50],
     domain_FI_filled = True,
     optimization_base = ''failure_index'',
     mass_goal_ratio = 4/10,
     mass_addition_ratio = 1/100,
     mass_removal_ratio = 3/100,
     ratio_type = ''relative'',
     FI_violated_tolerance = 1,
     tolerance = 1/1000,
     iterations_limit = Limit 30,
     filter_list = [],
     sensitivity_averaging = False,
     mass_full = 100 \<rparr>"

definition example_states :: states where
  "example_states = [1 \<mapsto> 1, 2 \<mapsto> 1]"

definition healing_state :: loop_state where
  "healing_state = (initial_state example_states 100)
     \<lparr> iter_i := 2, mass := [100, 30], FI_violated := [[0], [5]] \<rparr>"

definition healing_state_above :: loop_state where
  "healing_state_above = (initial_state example_states 100)
     \<lparr> iter_i := 2, mass := [100, 97], FI_violated := [[0], [5]] \<rparr>"

definition example_env :: iter_env where
  "example_env = \<lparr> exit_status = 0,
     FI_step = [[1 \<mapsto> [Some (1/2)], 2 \<mapsto> [Some (1/4), None]]],
     energy_density_step = [],
     buckling_factors = [],
     energy_density_eigen = [],
     heat_flux = Map.empty,
     sw_in_place = True,
     sw_elm_states = [1 \<mapsto> 1, 2 \<mapsto> 0],
     sw_mass = [100, 5005/100] \<rparr>"

definition no_filter :: "filter_entry \<Rightarrow> elem list \<Rightarrow> (elem \<rightharpoonup> real) \<Rightarrow> (elem \<rightharpoonup> real)" where
  "no_filter ft dtf sens = sens"

definition no_morphology :: "states \<Rightarrow> elem list \<Rightarrow> string \<Rightarrow> (elem \<rightharpoonup> real) \<Rightarrow> states" where
  "no_morphology s dtf op fsm = s"


fun terminal_of :: "outcome \<Rightarrow> terminal option" where
  "terminal_of (Running st) = None"
| "terminal_of (Terminated t st) = Some t"
| "terminal_of (Failed e tr) = None"

fun failure_of :: "outcome \<Rightarrow> error option" where
  "failure_of (Running st) = None"
| "failure_of (Terminated t st) = None"
| "failure_of (Failed e tr) = Some e"

fun state_of :: "outcome \<Rightarrow> loop_state option" where
  "state_of (Running st) = Some st"
| "state_of (Terminated t st) = Some st"
| "state_of (Failed e tr) = None"

definition steady_env :: iter_env where
  "steady_env = example_env\<lparr>FI_step := [[1 \<mapsto> [Some (1/2)], 2 \<mapsto> [Some (1/2), None]]]\<rparr>"

definition switching_to :: "states \<Rightarrow> real list \<Rightarrow> iter_env" where
  "switching_to s ms = steady_env\<lparr>sw_elm_states := s, sw_mass := ms\<rparr>"

definition cycle_envs :: "iter_env list" where
  "cycle_envs =
     [switching_to [1 \<mapsto> 1, 2 \<mapsto> 0] [100, 5005/100],
      switching_to [1 \<mapsto> 0, 2 \<mapsto> 0] [100, 5005/100, 1/10],
      switching_to [1 \<mapsto> 0, 2 \<mapsto> 1] [100, 5005/100, 1/10, 5005/100],
      switching_to [1 \<mapsto> 1, 2 \<mapsto> 1] [100, 5005/100, 1/10, 5005/100, 100],
      switching_to [1 \<mapsto> 1, 2 \<mapsto> 0] [100, 5005/100, 1/10, 5005/100, 100, 5005/100]]"






definition back_and_forth_envs :: "iter_env list" where
  "back_and_forth_envs =
     [switching_to [1 \<mapsto> 1, 2 \<mapsto> 0] [100, 5005/100],
      switching_to [1 \<mapsto> 1, 2 \<mapsto> 1] [100, 5005/100, 100]]"

definition stalled_envs :: "iter_env list" where
  "stalled_envs =
     [switching_to [1 \<mapsto> 1, 2 \<mapsto> 0] [100, 5005/100],
      switching_to [1 \<mapsto> 1, 2 \<mapsto> 0] [100, 5005/100, 5005/100]]"

text \<open>
  Well-formed mesh data: every configured domain has a density table and an
  element list, and no element belongs to two configured domains.
\<close>

definition declared :: "config \<Rightarrow> bool" where
  "declared cfg =
     (\<forall>dn\<in>set (domains_from_config cfg).
        domain_density cfg dn \<noteq> None \<and> domains cfg dn \<noteq> None)"

definition elements_of :: "config \<Rightarrow> string \<Rightarrow> elem set" where
  "elements_of cfg dn = (case domains cfg dn of None \<Rightarrow> {} | Some ens \<Rightarrow> set ens)"

definition states_of :: "config \<Rightarrow> string \<Rightarrow> nat" where
  "states_of cfg dn = (case domain_density cfg dn of None \<Rightarrow> 0 | Some dens \<Rightarrow> length dens)"

definition single_owner :: "config \<Rightarrow> bool" where
  "single_owner cfg =
     (\<forall>dn\<in>set (domains_from_config cfg). \<forall>dn'\<in>set (domains_from_config cfg).
        dn \<noteq> dn' \<longrightarrow> elements_of cfg dn \<inter> elements_of cfg dn' = {})"

definition no_import :: "string \<Rightarrow> states" where
  "no_import src = Map.empty"












section \<open>Properties of the driver\<close>

subsection \<open>Evaluation of the model on explicit inputs\<close>

lemmas reduce_defs = reduce_results_def buckling_sensitivities_def
  FI_max_all_def FI_max_domain_def FI_max_step_def
  sensitivity_loop_def sensitivity_domain_def sensitivity_element_def FI_step_max_en_def
  element_step_def sensitivity_of_def sensitivity_filtering_def filter_sensitivity_def
  average_sensitivity_def
  mean_values_def mean_domain_def mean_element_def volume_mass_def shell_mass_def

lemmas control_defs = iteration_def begin_iteration_def check_exit_status_def missing_ccx_results_def or_fail_def
  convergence_checks_def check_mean_def relative_difference_def finished_def set_mass_goal_def
  mass_referential_def switch_states_def state_filtering_def filter_state_def
  correct_domain_def correct_shell_def correct_volume_def check_oscillation_def
  current_states_def domains_to_filter_def truthy_def

lemmas python_defs = and_then_def py_get_def py_key_def py_div_def py_max_def

lemma empty_neq_upd: "(Map.empty = m(k \<mapsto> v)) = False"
  by (metis map_upd_nonempty)

lemma map_upd_eq_iff:
  assumes "k \<notin> dom m" and "k \<notin> dom m'"
  shows "(m(k \<mapsto> v) = m'(k \<mapsto> v')) = (v = v' \<and> m = m')"
proof
  assume eq: "m(k \<mapsto> v) = m'(k \<mapsto> v')"
  then have "v = v'" by (rule map_upd_eqD1)
  moreover have "m x = m' x" for x
  proof (cases "x = k")
    case True
    with assms show ?thesis by (simp add: domIff)
  next
    case False
    with eq show ?thesis by (metis fun_upd_other)
  qed
  ultimately show "v = v' \<and> m = m'" by auto
qed auto

lemmas map_eq_simps = empty_neq_upd map_upd_eq_iff

lemmas input_defs = example_config_def example_env_def example_states_def initial_state_def
  steady_env_def switching_to_def cycle_envs_def no_morphology_def

lemmas eval_defs = input_defs control_defs reduce_defs python_defs map_eq_simps upt_conv_Cons

subsection \<open>What each phase of a pass leaves unchanged\<close>



























subsection \<open>Mass goal while constraints are violated\<close>

text \<open>
  C6, as stated: in a net-removing run, whenever the violated elements of the
  previous iteration outnumber those of the first iteration by more than the
  tolerance, \<^verbatim>\<open>mass_goal_i\<close> equals \<^verbatim>\<open>mass[i - 1]\<close>. With a previous mass of 30
  below the goal mass of 40, the goal is set to 40.
\<close>

theorem mass_goal_held_counterexample:
  "mass_removal_ratio example_config - mass_addition_ratio example_config > 0
   \<and> int (sum_list (FI_violated healing_state ! 1))
       > int (sum_list (FI_violated healing_state ! 0)) + FI_violated_tolerance example_config
   \<and> py_get (mass healing_state) (int (iter_i healing_state) - 1) = Inr 30
   \<and> map_sum id mass_goal_i (set_mass_goal example_config healing_state) = Inr (Some 40)"
  by (simp add: example_config_def healing_state_def initial_state_def set_mass_goal_def
      and_then_def py_get_def)

text \<open>
  C6, amended: under the same condition \<^verbatim>\<open>mass_goal_i\<close> is the previous mass
  when that mass is at least \<^verbatim>\<open>mass_goal_ratio * mass_full\<close>, and
  \<^verbatim>\<open>mass_goal_ratio * mass_full\<close> otherwise.
\<close>

theorem mass_goal_held:
  assumes "mass_removal_ratio cfg - mass_addition_ratio cfg > 0"
    and "py_get (FI_violated st) (int (iter_i st) - 1) = Inr prev"
    and "py_get (FI_violated st) 0 = Inr first"
    and "py_get (mass st) (int (iter_i st) - 1) = Inr m"
    and "int (sum_list prev) > int (sum_list first) + FI_violated_tolerance cfg"
  shows "\<exists>st'. set_mass_goal cfg st = Inr st'
           \<and> mass_goal_i st' = Some (if m \<ge> mass_goal_ratio cfg * mass_full cfg then m
                                     else mass_goal_ratio cfg * mass_full cfg)"
  using assms by (simp add: set_mass_goal_def and_then_def Let_def)

theorem mass_goal_held_witness:
  "\<exists>st'. set_mass_goal example_config healing_state_above = Inr st'
         \<and> mass_goal_i st' = Some 97"
proof -
  have 1: "mass_removal_ratio example_config - mass_addition_ratio example_config > 0"
    by (simp add: example_config_def)
  have 2: "py_get (FI_violated healing_state_above) (int (iter_i healing_state_above) - 1) = Inr [5]"
    by (simp add: healing_state_above_def initial_state_def py_get_def)
  have 3: "py_get (FI_violated healing_state_above) 0 = Inr [0]"
    by (simp add: healing_state_above_def initial_state_def py_get_def)
  have 4: "py_get (mass healing_state_above) (int (iter_i healing_state_above) - 1) = Inr 97"
    by (simp add: healing_state_above_def initial_state_def py_get_def)
  have 5: "int (sum_list [5::nat]) > int (sum_list [0::nat]) + FI_violated_tolerance example_config"
    by (simp add: example_config_def)
  show ?thesis
    using mass_goal_held [OF 1 2 3 4 5] by (simp add: example_config_def)
qed

subsection \<open>An unreachable mass goal\<close>

text \<open>
  C4: a mass goal that the initial mass already meets in a net-removing run is
  reported by a warning, and the iteration goes on to switch element states.
  The code logs the warning and then evaluates the unbound \<^verbatim>\<open>mass_goal_i\<close> as
  an argument of \<^verbatim>\<open>beso_lib.switching\<close>: with a goal ratio of 1 and a fully
  solid start the first iteration ends in \<^verbatim>\<open>NameError\<close>, the warning being
  the last entry of the trace and the switching engine never called.
\<close>

theorem unreachable_goal_fails:
  "iteration (example_config\<lparr>mass_goal_ratio := 1\<rparr>) no_filter no_morphology example_env
     (initial_state example_states 100)
   = Failed NameError [CalculiX_call 0, Log Mass_goal_warning]"
  by (simp add: example_config_def example_env_def example_states_def initial_state_def
      control_defs reduce_defs python_defs)

subsection \<open>Exit status of the solver\<close>


subsection \<open>Runs of the iteration cycle\<close>















subsection \<open>Terminal transitions and the number of recorded iterations\<close>





subsection \<open>Convergence of the tracked mean\<close>



subsection \<open>A failed solver run\<close>




subsection \<open>Oscillation between two designs\<close>

text \<open>
  C2: the cycle ends with \<open>OSCILLATING\<close> at exactly the iterations whose element
  states equal those of two iterations before. Before the cycle,
  \<^verbatim>\<open>elm_states_last\<close> is bound to the dictionary \<^verbatim>\<open>elm_states\<close> itself (line
  575), not to a copy as in lines 1036--1037. When the switching engine updates
  that dictionary in place, the comparison of iteration 2 is against the states
  of iteration 1: a return to the initial states in iteration 2 goes unnoticed,
  and states that merely did not change between iterations 1 and 2 end the
  cycle as an oscillation.
\<close>

theorem oscillation_missed:
  "terminal_of (run example_config no_filter no_morphology (initial_state example_states 100)
                  back_and_forth_envs) = None
   \<and> failure_of (run example_config no_filter no_morphology (initial_state example_states 100)
                  back_and_forth_envs) = None
   \<and> map_option current_states
        (state_of (run example_config no_filter no_morphology (initial_state example_states 100)
                     back_and_forth_envs)) = Some example_states
   \<and> terminal_of (run example_config no_filter no_morphology (initial_state example_states 100)
                    stalled_envs) = Some OSCILLATING"
  by (simp add: back_and_forth_envs_def stalled_envs_def eval_defs)

text \<open>
  With the same sequences of states, but returned by the switching engine in new
  dictionaries, the return to the initial states is found and the unchanged
  states are not taken for an oscillation.
\<close>

lemma oscillation_found_with_new_objects:
  "terminal_of (run example_config no_filter no_morphology (initial_state example_states 100)
                  (map (\<lambda>env. env\<lparr>sw_in_place := False\<rparr>) back_and_forth_envs))
   = Some OSCILLATING
   \<and> terminal_of (run example_config no_filter no_morphology (initial_state example_states 100)
                    (map (\<lambda>env. env\<lparr>sw_in_place := False\<rparr>) stalled_envs)) = None"
  by (simp add: back_and_forth_envs_def stalled_envs_def eval_defs)

subsection \<open>Initial states from an integer \<^verbatim>\<open>continue_from\<close>\<close>

lemma for_each_writes:
  fixes body :: "'d \<Rightarrow> 's \<Rightarrow> error + 's" and view :: "'s \<Rightarrow> ('k \<rightharpoonup> 'v)"
  assumes step: "\<And>d s. d \<in> set ds \<Longrightarrow>
      \<exists>s'. body d s = Inr s'
         \<and> (\<forall>k. view s' k = (if k \<in> keys d then Some (val d k) else view s k))"
    and disj: "\<forall>d\<in>set ds. \<forall>d'\<in>set ds. d \<noteq> d' \<longrightarrow> keys d \<inter> keys d' = {}"
  shows "\<exists>s'. for_each body ds s = Inr s'
          \<and> (\<forall>k. (\<forall>d\<in>set ds. k \<in> keys d \<longrightarrow> view s' k = Some (val d k))
                \<and> ((\<forall>d\<in>set ds. k \<notin> keys d) \<longrightarrow> view s' k = view s k))"
  using assms
proof (induction ds arbitrary: s)
  case Nil
  then show ?case by simp
next
  case (Cons d ds)
  from Cons.prems(1) [of d s] obtain s1 where
    b: "body d s = Inr s1"
    and v: "\<And>k. view s1 k = (if k \<in> keys d then Some (val d k) else view s k)"
    by auto
  have "\<exists>s'. for_each body ds s1 = Inr s'
          \<and> (\<forall>k. (\<forall>d\<in>set ds. k \<in> keys d \<longrightarrow> view s' k = Some (val d k))
                \<and> ((\<forall>d\<in>set ds. k \<notin> keys d) \<longrightarrow> view s' k = view s1 k))"
    by (rule Cons.IH) (use Cons.prems in auto)
  then obtain s' where
    f: "for_each body ds s1 = Inr s'"
    and in_ds: "\<And>k d'. d' \<in> set ds \<Longrightarrow> k \<in> keys d' \<Longrightarrow> view s' k = Some (val d' k)"
    and out_ds: "\<And>k. (\<forall>d\<in>set ds. k \<notin> keys d) \<Longrightarrow> view s' k = view s1 k"
    by blast
  have "view s' k = Some (val d k)" if "k \<in> keys d" for k
  proof (cases "\<forall>d'\<in>set ds. k \<notin> keys d'")
    case True
    with out_ds v that show ?thesis by simp
  next
    case False
    then obtain d' where d': "d' \<in> set ds" "k \<in> keys d'" by blast
    with Cons.prems(2) that have "d' = d" by fastforce
    with in_ds d' show ?thesis by blast
  qed
  moreover have "view s' k = view s k" if "\<forall>d'\<in>set (d # ds). k \<notin> keys d'" for k
    using that out_ds v by simp
  ultimately show ?case
    using b f in_ds by auto
qed

lemma fold_assign:
  "fold (\<lambda>en s. s(en \<mapsto> sn)) ens s = (\<lambda>en. if en \<in> set ens then Some sn else s en)"
  by (induction ens arbitrary: s) auto

lemma init_domain_result:
  assumes "domain_density cfg dn = Some dens" and "domains cfg dn = Some ens"
  shows "init_domain cfg cf dn (s, l)
         = Inr (\<lambda>en. if en \<in> set ens then Some (min cf (int (length dens) - 1)) else s en,
                l @ (if int (length dens) - 1 < cf then [Log (Highest_state_info dn)] else []))"
  using assms
  by (auto simp: init_domain_def and_then_def py_key_def fold_assign min_def)

lemma init_states_log:
  assumes "\<forall>dn\<in>set dns. domain_density cfg dn \<noteq> None \<and> domains cfg dn \<noteq> None"
    and "for_each (init_domain cfg cf) dns (s, l) = Inr (s', l')"
  shows "set l' = set l \<union> {Log (Highest_state_info dn) | dn.
                              dn \<in> set dns \<and> int (states_of cfg dn) - 1 < cf}"
  using assms
proof (induction dns arbitrary: s l)
  case Nil
  then show ?case by simp
next
  case (Cons dn dns)
  from Cons.prems(1) obtain dens ens where
    d: "domain_density cfg dn = Some dens" "domains cfg dn = Some ens"
    by auto
  note r = init_domain_result [OF d, of cf s l]
  from Cons.prems(2) r have
    "for_each (init_domain cfg cf) dns
       (\<lambda>en. if en \<in> set ens then Some (min cf (int (length dens) - 1)) else s en,
        l @ (if int (length dens) - 1 < cf then [Log (Highest_state_info dn)] else []))
     = Inr (s', l')"
    by simp
  from Cons.IH [OF _ this] Cons.prems(1) d show ?case
    by (auto simp: states_of_def)
qed

text \<open>
  C10, as stated: with an integer \<^verbatim>\<open>continue_from\<close> every element starts in
  state \<open>min continue_from (states - 1)\<close> of its domain, which is a valid state
  index of that domain. A negative \<^verbatim>\<open>continue_from\<close> is below no upper bound
  and is assigned as it is: with \<open>-1\<close> the elements of a two-state domain
  start in state \<open>-1\<close>.
\<close>

theorem continue_from_negative_counterexample:
  "map_sum id (\<lambda>(s, log). s 1)
     (init_elm_states example_config no_import no_import no_import (Int_state (- 1)))
   = Inr (Some (- 1))
   \<and> min (- 1) (int (states_of example_config ''d'') - 1) = - 1
   \<and> 1 \<in> elements_of example_config ''d''"
  by (simp add: init_elm_states_def init_domain_def example_config_def python_defs
      states_of_def elements_of_def)

text \<open>
  C10, amended: for declared domains that share no element, every element of
  every configured domain is assigned \<open>min continue_from (states - 1)\<close>, and
  the clamping of a domain is logged exactly when \<^verbatim>\<open>continue_from\<close> exceeds its
  highest state. The assigned index is a valid state of the domain when
  \<^verbatim>\<open>continue_from\<close> is not negative and the domain has at least one state.
\<close>

theorem continue_from_state:
  assumes "declared cfg" and "single_owner cfg"
  shows "\<exists>s log. init_elm_states cfg import_frd import_inp import_csv (Int_state cf) = Inr (s, log)
     \<and> (\<forall>dn\<in>set (domains_from_config cfg).
           (\<forall>en\<in>elements_of cfg dn. s en = Some (min cf (int (states_of cfg dn) - 1)))
         \<and> ((Log (Highest_state_info dn) \<in> set log) = (int (states_of cfg dn) - 1 < cf))
         \<and> (0 \<le> cf \<and> 0 < states_of cfg dn \<longrightarrow>
              (\<forall>en\<in>elements_of cfg dn. \<exists>sn. s en = Some sn \<and> 0 \<le> sn
                                           \<and> sn < int (states_of cfg dn))))"
proof -
  let ?val = "\<lambda>dn (en::elem). min cf (int (states_of cfg dn) - 1)"
  have step: "\<exists>s'. init_domain cfg cf dn sl = Inr s'
      \<and> (\<forall>k. fst s' k = (if k \<in> elements_of cfg dn then Some (?val dn k) else fst sl k))"
    if "dn \<in> set (domains_from_config cfg)" for dn sl
  proof -
    from that assms(1) obtain dens ens where
      d: "domain_density cfg dn = Some dens" "domains cfg dn = Some ens"
      by (auto simp: declared_def)
    from init_domain_result [OF d, of cf "fst sl" "snd sl"] d show ?thesis
      by (simp add: elements_of_def states_of_def)
  qed
  from for_each_writes [of "domains_from_config cfg" "init_domain cfg cf" fst
      "elements_of cfg" ?val "(Map.empty, [])", OF step] assms(2)
  obtain sl where
    f: "for_each (init_domain cfg cf) (domains_from_config cfg) (Map.empty, []) = Inr sl"
    and v: "\<And>dn k. dn \<in> set (domains_from_config cfg) \<Longrightarrow> k \<in> elements_of cfg dn
              \<Longrightarrow> fst sl k = Some (?val dn k)"
    unfolding single_owner_def by blast
  obtain s log where sl: "sl = (s, log)" by (cases sl)
  from init_states_log [OF _ f [unfolded sl]] assms(1) have
    l: "set log = {Log (Highest_state_info dn) | dn.
                     dn \<in> set (domains_from_config cfg) \<and> int (states_of cfg dn) - 1 < cf}"
    by (simp add: declared_def)
  have "init_elm_states cfg import_frd import_inp import_csv (Int_state cf) = Inr (s, log)"
    using f by (simp add: init_elm_states_def sl)
  moreover have "\<forall>dn\<in>set (domains_from_config cfg).
           (\<forall>en\<in>elements_of cfg dn. s en = Some (min cf (int (states_of cfg dn) - 1)))
         \<and> ((Log (Highest_state_info dn) \<in> set log) = (int (states_of cfg dn) - 1 < cf))
         \<and> (0 \<le> cf \<and> 0 < states_of cfg dn \<longrightarrow>
              (\<forall>en\<in>elements_of cfg dn. \<exists>sn. s en = Some sn \<and> 0 \<le> sn
                                           \<and> sn < int (states_of cfg dn)))"
    using v l by (auto simp: sl)
  ultimately show ?thesis by blast
qed

theorem continue_from_state_witness:
  "\<exists>s log. init_elm_states example_config no_import no_import no_import (Int_state 5)
            = Inr (s, log)
      \<and> s 1 = Some 1 \<and> s 2 = Some 1 \<and> Log (Highest_state_info ''d'') \<in> set log"
proof -
  have d: "declared example_config"
    by (simp add: declared_def example_config_def)
  have o: "single_owner example_config"
    by (simp add: single_owner_def example_config_def)
  have e: "elements_of example_config ''d'' = {1, 2}" "states_of example_config ''d'' = 2"
    "domains_from_config example_config = [''d'']"
    by (auto simp: elements_of_def states_of_def example_config_def)
  from continue_from_state [OF d o, of no_import no_import no_import 5] show ?thesis
    by (auto simp: e)
qed

subsection \<open>Sensitivity numbers of the failure-index objective\<close>














subsection \<open>The automatic iteration limit\<close>











end
